theory Spec2Isabelle
  imports Main "HOL-Library.Sublist"
begin

section \<open>Python strings\<close>

text \<open>
  A Python \<open>str\<close> is a sequence of code points. It is modelled by \<open>string\<close>, a list of
  8-bit characters, each read as the code point of the same number: the model covers the
  strings whose code points are below 256 (ASCII and the Latin-1 supplement), and on these
  it follows Python's \<open>str\<close> methods exactly.
\<close>

text \<open>
  \<open>str.isspace\<close> on one character, as \<open>str.strip\<close> uses it: tab, line feed, vertical tab,
  form feed, carriage return, the four separators 28 to 31, space, next line (133) and the
  no-break space (160).
\<close>

definition is_space :: "char \<Rightarrow> bool" where
  "is_space c = (of_char c \<in> set [9, 10, 11, 12, 13, 28, 29, 30, 31, 32, 133, 160 :: nat])"

text \<open>\<open>s.lstrip()\<close>, \<open>s.rstrip()\<close> and \<open>s.strip()\<close> with no argument.\<close>

definition str_lstrip :: "string \<Rightarrow> string" where
  "str_lstrip s = dropWhile is_space s"

definition str_rstrip :: "string \<Rightarrow> string" where
  "str_rstrip s = rev (dropWhile is_space (rev s))"

definition str_strip :: "string \<Rightarrow> string" where
  "str_strip s = str_rstrip (str_lstrip s)"

text \<open>\<open>s.rstrip(chars)\<close>: drops the trailing characters that occur in \<open>chars\<close>.\<close>

definition str_rstrip_chars :: "string \<Rightarrow> string \<Rightarrow> string" where
  "str_rstrip_chars chars s = rev (dropWhile (\<lambda>c. c \<in> set chars) (rev s))"

text \<open>
  \<open>s.lower()\<close>: below 256 the upper-case letters are A to Z (65 to 90) and the Latin-1
  capitals 192 to 222 without the multiplication sign 215; each has its lower-case form
  32 places higher.
\<close>

definition lower_char :: "char \<Rightarrow> char" where
  "lower_char c =
     (let n = of_char c :: nat in
      if n = 215 then c
      else if (65 \<le> n \<and> n \<le> 90) \<or> (192 \<le> n \<and> n \<le> 222) then char_of (n + 32)
      else c)"

definition str_lower :: "string \<Rightarrow> string" where
  "str_lower s = map lower_char s"

text \<open>\<open>s.startswith(p)\<close>.\<close>

fun startswith :: "string \<Rightarrow> string \<Rightarrow> bool" where
  "startswith s [] = True"
| "startswith [] (p # ps) = False"
| "startswith (c # cs) (p # ps) = (if c = p then startswith cs ps else False)"

text \<open>\<open>sub in s\<close>: \<open>sub\<close> occurs in \<open>s\<close> as a contiguous substring.\<close>

fun str_contains :: "string \<Rightarrow> string \<Rightarrow> bool" where
  "str_contains sub [] = (sub = [])"
| "str_contains sub (c # cs) = (if startswith (c # cs) sub then True else str_contains sub cs)"

section \<open>The SQL safety gate\<close>

definition forbidden_keywords :: "string list" where
  "forbidden_keywords =
     [''insert'', ''update'', ''delete'', ''drop'', ''alter'', ''create'',
      ''truncate'', ''replace'', ''pragma'', ''attach'', ''detach'']"

text \<open>
  The loop \<open>for keyword in forbidden_keywords: if keyword in sql_lower: return False\<close>,
  followed by the final \<open>return True\<close>.
\<close>

fun keywords_loop :: "string list \<Rightarrow> string \<Rightarrow> bool" where
  "keywords_loop [] sql_lower = True"
| "keywords_loop (keyword # rest) sql_lower =
     (if str_contains keyword sql_lower then False else keywords_loop rest sql_lower)"

text \<open>
  \<open>is_safe_sql\<close>, check by check in the order of the source. The argument is a \<open>str\<close>, so
  \<open>not sql or not isinstance(sql, str)\<close> is the test for the empty string.
\<close>

definition is_safe_sql :: "string \<Rightarrow> bool" where
  "is_safe_sql sql =
     (if sql = [] then False
      else
        let sql_lower = str_lower (str_strip sql) in
        if \<not> startswith sql_lower ''select'' then False
        else if \<not> str_contains ''gold_price'' sql_lower then False
        else if str_contains '';'' sql_lower \<and>
                str_rstrip_chars '';'' (str_rstrip sql_lower) \<noteq> str_rstrip sql_lower then False
        else keywords_loop forbidden_keywords sql_lower)"


section \<open>Formatting an integer\<close>

text \<open>\<open>str(n)\<close> of a Python \<open>int\<close>, as an f-string inserts it: decimal digits, with a minus sign
  in front of a negative number.\<close>

definition digit_char :: "nat \<Rightarrow> char" where
  "digit_char k = char_of (48 + k)"

fun str_nat :: "nat \<Rightarrow> string" where
  "str_nat n = (if n < 10 then [digit_char n] else str_nat (n div 10) @ [digit_char (n mod 10)])"

declare str_nat.simps [simp del]

definition str_int :: "int \<Rightarrow> string" where
  "str_int i = (if i < 0 then CHR ''-'' # str_nat (nat (- i)) else str_nat (nat i))"

section \<open>The database driver and the file system\<close>

text \<open>
  The \<open>sqlite3\<close> driver and the file system are outside the program. One operation sees
  them as a fixed snapshot, a \<open>driver\<close> record that says what each call answers:
  \<^item> \<open>path_exists\<close>: \<open>os.path.exists(SQLITE_DB_PATH)\<close>;
  \<^item> \<open>abspath\<close>: \<open>os.path.abspath(SQLITE_DB_PATH)\<close>;
  \<^item> \<open>on_connect\<close>: the exception \<open>sqlite3.connect\<close> raises, \<open>None\<close> when it returns a
    connection;
  \<^item> \<open>on_execute sql\<close>: the rows that \<open>conn.execute(sql)\<close> and the fetch from its cursor
    deliver, or the exception they raise;
  \<^item> \<open>dict_of_row\<close>: \<open>dict(row)\<close>;
  \<^item> \<open>count_of\<close>: the count read from the row of a \<open>COUNT(*)\<close> query (\<open>row['count']\<close>,
    \<open>row[0]\<close>).
  Leaving the \<open>with conn:\<close> block and \<open>conn.close()\<close> are taken not to raise.
\<close>

datatype exn = SqliteError string | OtherError string

record ('row, 'dict) driver =
  path_exists :: bool
  abspath :: string
  on_connect :: "exn option"
  on_execute :: "string \<Rightarrow> exn + 'row list"
  dict_of_row :: "'row \<Rightarrow> 'dict"
  count_of :: "'row \<Rightarrow> int"

text \<open>
  What an operation does to the database is recorded in a trace of events, the state that
  every operation takes and returns: a connection opened by \<open>sqlite3.connect\<close>, a failed
  attempt to connect, a statement passed to \<open>conn.execute\<close>, a connection closed by a call
  of \<open>conn.close()\<close>.
\<close>

datatype event = Opened | ConnectFailed | Executed string | Closed

definition opened :: "event list \<Rightarrow> nat" where
  "opened t = length (filter (\<lambda>e. e = Opened) t)"

definition closed :: "event list \<Rightarrow> nat" where
  "closed t = length (filter (\<lambda>e. e = Closed) t)"

text \<open>The dictionaries the operations return, one constructor for each shape:
  \<^item> \<open>Success data row_count query\<close>;
  \<^item> \<open>Failure error database_path\<close>, the path present only in the missing-database reply;
  \<^item> \<open>TableInfo table_name columns row_count database_path\<close>;
  \<^item> \<open>Status status message database_path setup_instructions record_count\<close>.\<close>

datatype 'dict response =
    Success "'dict list" nat string
  | Failure string "string option"
  | TableInfo string "'dict list" int string
  | Status string string string "string option" "int option"

text \<open>An operation returns \<open>Inr\<close> of its dictionary, or \<open>Inl\<close> of the exception that escapes it.\<close>

type_synonym 'dict outcome = "(exn + 'dict response) \<times> event list"

definition apostrophe :: string where
  "apostrophe = [CHR 0x27]"

definition table_probe_sql :: string where
  "table_probe_sql =
     ''SELECT name FROM sqlite_master WHERE type='' @ apostrophe @ ''table'' @ apostrophe @
     '' AND name='' @ apostrophe @ ''gold_price'' @ apostrophe"

definition count_sql :: string where
  "count_sql = ''SELECT COUNT(*) as count FROM gold_price''"

definition table_info_sql :: string where
  "table_info_sql = ''PRAGMA table_info(gold_price)''"

definition db_missing_message :: string where
  "db_missing_message =
     ''Database not found or invalid. Please run '' @ apostrophe @
     ''python create_sample_db.py'' @ apostrophe @ '' first.''"

definition unsafe_sql_message :: string where
  "unsafe_sql_message = ''Only safe SELECT queries on the gold_price table are allowed.''"

definition none_subscript_message :: string where
  "none_subscript_message =
     apostrophe @ ''NoneType'' @ apostrophe @ '' object is not subscriptable''"

section \<open>The database existence check\<close>

text \<open>
  \<open>check_database_exists\<close>: only \<open>sqlite3.Error\<close> is handled, any other exception escapes;
  \<open>conn.close()\<close> is reached only when the probe returned.
\<close>

definition check_database_exists ::
  "('row, 'dict) driver \<Rightarrow> event list \<Rightarrow> (exn + bool) \<times> event list" where
  "check_database_exists d t =
     (if \<not> path_exists d then (Inr False, t)
      else
        case on_connect d of
          Some (SqliteError m) \<Rightarrow> (Inr False, t @ [ConnectFailed])
        | Some (OtherError m) \<Rightarrow> (Inl (OtherError m), t @ [ConnectFailed])
        | None \<Rightarrow>
            (case on_execute d table_probe_sql of
               Inl (SqliteError m) \<Rightarrow> (Inr False, t @ [Opened, Executed table_probe_sql])
             | Inl (OtherError m) \<Rightarrow>
                 (Inl (OtherError m), t @ [Opened, Executed table_probe_sql])
             | Inr rows \<Rightarrow>
                 (let table_exists = (rows \<noteq> []) in
                  (Inr table_exists, t @ [Opened, Executed table_probe_sql, Closed]))))"

section \<open>The query executor\<close>

text \<open>The two handlers \<open>except sqlite3.Error\<close> and \<open>except Exception\<close> of the executor.\<close>

definition error_reply :: "exn \<Rightarrow> 'dict response" where
  "error_reply e =
     (case e of
        SqliteError m \<Rightarrow> Failure (''SQLite error: '' @ m) None
      | OtherError m \<Rightarrow> Failure (''Unexpected error: '' @ m) None)"

text \<open>
  \<open>execute_sql_query\<close>. The existence check runs outside the \<open>try\<close>, so an exception that
  escapes it escapes the executor. Inside the \<open>try\<close>, an exception of \<open>sqlite3.connect\<close>
  leaves \<open>conn\<close> unbound and the \<open>finally\<close> block closes nothing; once \<open>conn\<close> is bound the
  \<open>finally\<close> block closes it on every path.
\<close>

definition execute_sql_query ::
  "('row, 'dict) driver \<Rightarrow> string \<Rightarrow> event list \<Rightarrow> 'dict outcome" where
  "execute_sql_query d sql t =
     (case check_database_exists d t of
        (Inl e, t1) \<Rightarrow> (Inl e, t1)
      | (Inr ok, t1) \<Rightarrow>
          if \<not> ok then (Inr (Failure db_missing_message (Some (abspath d))), t1)
          else if \<not> is_safe_sql sql then (Inr (Failure unsafe_sql_message None), t1)
          else
            (case on_connect d of
               Some e \<Rightarrow> (Inr (error_reply e), t1 @ [ConnectFailed])
             | None \<Rightarrow>
                 (case on_execute d sql of
                    Inl e \<Rightarrow> (Inr (error_reply e), t1 @ [Opened, Executed sql, Closed])
                  | Inr rows \<Rightarrow>
                      (let result = map (dict_of_row d) rows in
                       (Inr (Success result (length result) sql),
                        t1 @ [Opened, Executed sql, Closed])))))"

section \<open>The tool surface\<close>

definition run_query :: "('row, 'dict) driver \<Rightarrow> string \<Rightarrow> event list \<Rightarrow> 'dict outcome" where
  "run_query d sql t = execute_sql_query d sql t"

definition get_table_info :: "('row, 'dict) driver \<Rightarrow> event list \<Rightarrow> 'dict outcome" where
  "get_table_info d t =
     (case check_database_exists d t of
        (Inl e, t1) \<Rightarrow> (Inl e, t1)
      | (Inr ok, t1) \<Rightarrow>
          if \<not> ok then (Inr (Failure db_missing_message (Some (abspath d))), t1)
          else
            (case on_connect d of
               Some e \<Rightarrow> (Inr (error_reply e), t1 @ [ConnectFailed])
             | None \<Rightarrow>
                 (case on_execute d table_info_sql of
                    Inl e \<Rightarrow>
                      (Inr (error_reply e), t1 @ [Opened, Executed table_info_sql, Closed])
                  | Inr cols \<Rightarrow>
                      (let columns = map (dict_of_row d) cols;
                           t2 = t1 @ [Opened, Executed table_info_sql, Executed count_sql, Closed]
                       in
                       case on_execute d count_sql of
                         Inl e \<Rightarrow> (Inr (error_reply e), t2)
                       | Inr [] \<Rightarrow> (Inr (error_reply (OtherError none_subscript_message)), t2)
                       | Inr (row # rest) \<Rightarrow>
                           (Inr (TableInfo ''gold_price'' columns (count_of d row) (abspath d)),
                            t2)))))"

definition sample_data_sql :: string where
  "sample_data_sql = ''SELECT * FROM gold_price ORDER BY date DESC LIMIT 5''"

definition sample_data :: "('row, 'dict) driver \<Rightarrow> event list \<Rightarrow> 'dict outcome" where
  "sample_data d t = execute_sql_query d sample_data_sql t"

definition latest_price_sql :: string where
  "latest_price_sql = ''SELECT * FROM gold_price ORDER BY date DESC LIMIT 1''"

definition get_latest_price :: "('row, 'dict) driver \<Rightarrow> event list \<Rightarrow> 'dict outcome" where
  "get_latest_price d t = execute_sql_query d latest_price_sql t"

text \<open>The f-string \<open>f"SELECT * FROM gold_price ORDER BY date DESC LIMIT {days}"\<close>.\<close>

definition price_range_sql :: "int \<Rightarrow> string" where
  "price_range_sql days = ''SELECT * FROM gold_price ORDER BY date DESC LIMIT '' @ str_int days"

definition get_price_range :: "('row, 'dict) driver \<Rightarrow> int \<Rightarrow> event list \<Rightarrow> 'dict outcome" where
  "get_price_range d days t =
     (if days < 1 \<or> days > 365 then (Inr (Failure ''Days must be between 1 and 365'' None), t)
      else execute_sql_query d (price_range_sql days) t)"

text \<open>
  \<open>database_status\<close>: only \<open>sqlite3.Error\<close> is handled, and \<open>conn.close()\<close> is reached only
  when the count was read.
\<close>

definition database_status :: "('row, 'dict) driver \<Rightarrow> event list \<Rightarrow> 'dict outcome" where
  "database_status d t =
     (let db_path = abspath d in
      if \<not> path_exists d then
        (Inr (Status ''missing'' ''Database file does not exist'' db_path
               (Some (''Run '' @ apostrophe @ ''python create_sample_db.py'' @ apostrophe @
                      '' to create the database with sample data'')) None), t)
      else
        case check_database_exists d t of
          (Inl e, t1) \<Rightarrow> (Inl e, t1)
        | (Inr ok, t1) \<Rightarrow>
            if \<not> ok then
              (Inr (Status ''invalid'' ''Database exists but gold_price table is missing'' db_path
                     (Some (''Run '' @ apostrophe @ ''python create_sample_db.py'' @ apostrophe @
                            '' to recreate the database'')) None), t1)
            else
              (case on_connect d of
                 Some (SqliteError m) \<Rightarrow>
                   (Inr (Status ''error'' (''Database error: '' @ m) db_path None None),
                    t1 @ [ConnectFailed])
               | Some (OtherError m) \<Rightarrow> (Inl (OtherError m), t1 @ [ConnectFailed])
               | None \<Rightarrow>
                   (case on_execute d count_sql of
                      Inl (SqliteError m) \<Rightarrow>
                        (Inr (Status ''error'' (''Database error: '' @ m) db_path None None),
                         t1 @ [Opened, Executed count_sql])
                    | Inl (OtherError m) \<Rightarrow>
                        (Inl (OtherError m), t1 @ [Opened, Executed count_sql])
                    | Inr [] \<Rightarrow>
                        (Inl (OtherError none_subscript_message),
                         t1 @ [Opened, Executed count_sql])
                    | Inr (row # rest) \<Rightarrow>
                        (let row_count = count_of d row in
                         (Inr (Status ''ready''
                                (''Database is ready with '' @ str_int row_count @ '' records'')
                                db_path None (Some row_count)),
                          t1 @ [Opened, Executed count_sql, Closed])))))"

section \<open>Sample databases\<close>

text \<open>
  Four concrete snapshots, on which the operations are evaluated. A row is a pair of a day
  number and a price, and \<open>dict(row)\<close> lists its two columns.
  \<^item> \<open>ready_driver\<close>: the table exists and holds three rows;
  \<^item> \<open>missing_driver\<close>: the database file does not exist;
  \<^item> \<open>corrupt_driver\<close>: the file exists and is not a database, so that every statement
    raises \<open>sqlite3.DatabaseError\<close>;
  \<^item> \<open>damaged_driver\<close>: the schema catalog can be read and every other statement raises.
\<close>

definition SQLITE_DB_PATH :: string where
  "SQLITE_DB_PATH = ''/workspaces/MCP_Projects/gold_price.db''"

definition ready_driver :: "(nat \<times> nat, (string \<times> nat) list) driver" where
  "ready_driver =
     \<lparr>path_exists = True, abspath = SQLITE_DB_PATH, on_connect = None,
      on_execute = (\<lambda>sql. if sql = table_probe_sql then Inr [(0, 0)]
                           else if sql = count_sql then Inr [(3, 0)]
                           else Inr [(3, 1990), (2, 1985), (1, 1970)]),
      dict_of_row = (\<lambda>(day, price). [(''date'', day), (''price'', price)]),
      count_of = (\<lambda>(n, _). int n)\<rparr>"

definition missing_driver :: "(nat \<times> nat, (string \<times> nat) list) driver" where
  "missing_driver =
     \<lparr>path_exists = False, abspath = SQLITE_DB_PATH,
      on_connect = Some (SqliteError ''unable to open database file''),
      on_execute = (\<lambda>sql. Inl (SqliteError ''unable to open database file'')),
      dict_of_row = (\<lambda>(day, price). [(''date'', day), (''price'', price)]),
      count_of = (\<lambda>(n, _). int n)\<rparr>"

definition corrupt_driver :: "(nat \<times> nat, (string \<times> nat) list) driver" where
  "corrupt_driver =
     \<lparr>path_exists = True, abspath = SQLITE_DB_PATH, on_connect = None,
      on_execute = (\<lambda>sql. Inl (SqliteError ''file is not a database'')),
      dict_of_row = (\<lambda>(day, price). [(''date'', day), (''price'', price)]),
      count_of = (\<lambda>(n, _). int n)\<rparr>"

definition damaged_driver :: "(nat \<times> nat, (string \<times> nat) list) driver" where
  "damaged_driver =
     \<lparr>path_exists = True, abspath = SQLITE_DB_PATH, on_connect = None,
      on_execute = (\<lambda>sql. if sql = table_probe_sql then Inr [(0, 0)]
                           else Inl (SqliteError ''database disk image is malformed'')),
      dict_of_row = (\<lambda>(day, price). [(''date'', day), (''price'', price)]),
      count_of = (\<lambda>(n, _). int n)\<rparr>"

text \<open>The date column of a dictionary of the sample databases.\<close>

definition sample_date :: "(string \<times> nat) list \<Rightarrow> nat" where
  "sample_date r = (case map_of r ''date'' of Some day \<Rightarrow> day | None \<Rightarrow> 0)"

section \<open>Auxiliary notions for the proofs\<close>

definition is_digit :: "char \<Rightarrow> bool" where
  "is_digit c = (c \<in> set ''0123456789'')"

definition limit_prefix :: string where
  "limit_prefix = ''SELECT * FROM gold_price ORDER BY date DESC LIMIT ''"

definition limit_prefix_lower :: string where
  "limit_prefix_lower = ''select * from gold_price order by date desc limit ''"

section \<open>The SQL engine on the range query\<close>

text \<open>
  What the rows of \<open>SELECT * FROM gold_price ORDER BY date DESC LIMIT n\<close> are is decided by
  the SQL engine, which is outside the program. The engine reads the text after \<open>LIMIT\<close> as
  a decimal integer literal: \<open>decimal_value\<close> is that reading, a non-empty run of digits
  taken in base ten.
\<close>

fun decimal_acc :: "nat \<Rightarrow> string \<Rightarrow> nat option" where
  "decimal_acc acc [] = Some acc"
| "decimal_acc acc (c # cs) =
     (if is_digit c then decimal_acc (10 * acc + (of_char c - 48)) cs else None)"

definition decimal_value :: "string \<Rightarrow> nat option" where
  "decimal_value ds = (if ds = [] then None else decimal_acc 0 ds)"

text \<open>
  The assumption on the engine under which the program's result can be bounded: the rows of
  the table in the order of \<open>ORDER BY date DESC\<close> are \<open>ordered\<close>, the most recent first, and
  for every integer literal of value \<open>n\<close> (within the engine's 64-bit integers) the statement
  with \<open>LIMIT n\<close> yields the first \<open>n\<close> of them. The assumption speaks of the statement text
  the engine receives, and says nothing about any other statement.
\<close>

definition honours_order_limit ::
  "('row, 'dict) driver \<Rightarrow> ('dict \<Rightarrow> 'k::linorder) \<Rightarrow> 'row list \<Rightarrow> bool" where
  "honours_order_limit d date_of ordered \<longleftrightarrow>
     sorted_wrt (\<lambda>a b. date_of (dict_of_row d b) \<le> date_of (dict_of_row d a)) ordered
     \<and> (\<forall>ds n. decimal_value ds = Some n \<and> n < 2 ^ 63 \<longrightarrow>
           on_execute d (''SELECT * FROM gold_price ORDER BY date DESC LIMIT '' @ ds)
             = Inr (take n ordered))"

text \<open>
  A sample engine over a table of rows in storage order: it sorts by date, the most recent
  first, reads the limit from the statement text and keeps that many rows. \<open>sample_table\<close>
  holds ten rows, stored out of order.
\<close>

definition sample_table :: "(nat \<times> nat) list" where
  "sample_table =
     [(4, 1975), (9, 2010), (1, 1970), (7, 1995), (10, 2020),
      (3, 1990), (6, 1992), (2, 1985), (8, 2001), (5, 1980)]"

definition order_by_date_desc :: "(nat \<times> nat) list \<Rightarrow> (nat \<times> nat) list" where
  "order_by_date_desc tbl = rev (sort_key fst tbl)"

definition limit_of :: "string \<Rightarrow> nat option" where
  "limit_of sql =
     (if startswith sql limit_prefix then decimal_value (drop (length limit_prefix) sql)
      else None)"

definition table_driver :: "(nat \<times> nat) list \<Rightarrow> (nat \<times> nat, (string \<times> nat) list) driver" where
  "table_driver tbl =
     \<lparr>path_exists = True, abspath = SQLITE_DB_PATH, on_connect = None,
      on_execute = (\<lambda>sql. if sql = table_probe_sql then Inr [(0, 0)]
                           else if sql = count_sql then Inr [(length tbl, 0)]
                           else case limit_of sql of
                                  Some n \<Rightarrow> Inr (take n (order_by_date_desc tbl))
                                | None \<Rightarrow> Inl (SqliteError ''statement not supported'')),
      dict_of_row = (\<lambda>(day, price). [(''date'', day), (''price'', price)]),
      count_of = (\<lambda>(n, _). int n)\<rparr>"

section \<open>Facts about the string functions\<close>

lemma startswith_iff_prefix: "startswith s p \<longleftrightarrow> prefix p s"
  by (induction s p rule: startswith.induct) auto

lemma str_contains_iff_sublist: "str_contains sub s \<longleftrightarrow> sublist sub s"
  by (induction s) (auto simp: startswith_iff_prefix sublist_Cons_right)

lemma keywords_loop_iff: "keywords_loop kws s \<longleftrightarrow> (\<forall>kw \<in> set kws. \<not> sublist kw s)"
  by (induction kws) (auto simp: str_contains_iff_sublist)

lemma str_rstrip_keep: "s \<noteq> [] \<Longrightarrow> \<not> is_space (last s) \<Longrightarrow> str_rstrip s = s"
  unfolding str_rstrip_def by (cases s rule: rev_cases) auto

lemma str_lstrip_keep: "s \<noteq> [] \<Longrightarrow> \<not> is_space (hd s) \<Longrightarrow> str_lstrip s = s"
  unfolding str_lstrip_def by (cases s) auto

text \<open>A substring of \<open>p @ ds\<close> whose last character does not occur in \<open>ds\<close> lies in \<open>p\<close>.\<close>

lemma sublist_append_cut:
  "sublist kw (p @ ds) \<Longrightarrow> kw \<noteq> [] \<Longrightarrow> last kw \<notin> set ds \<Longrightarrow> sublist kw p"
proof (induction ds rule: rev_induct)
  case Nil
  then show ?case by simp
next
  case (snoc x xs)
  from snoc.prems(1) obtain us vs where eq: "p @ xs @ [x] = us @ kw @ vs"
    by (auto simp: sublist_def)
  show ?case
  proof (cases vs rule: rev_cases)
    case Nil
    with eq snoc.prems(2) have "last kw = x"
      by (metis append.assoc append_Nil2 last_appendR last_snoc)
    with snoc.prems(3) show ?thesis by simp
  next
    case (snoc ws w)
    with eq have "p @ xs = us @ kw @ ws"
      by (metis append.assoc butlast_snoc)
    then have "sublist kw (p @ xs)" by (auto simp: sublist_def)
    moreover from snoc.prems(3) have "last kw \<notin> set xs" by simp
    ultimately show ?thesis using snoc.IH snoc.prems(2) by blast
  qed
qed

subsection \<open>The gate, characterised\<close>

text \<open>
  The normalised text has no white space at its end, so the inner \<open>rstrip()\<close> calls change
  nothing, and the semicolon test of the gate holds exactly when the text ends in a
  semicolon. The gate accepts a string if and only if it is not empty and its normalised
  text starts with \<open>select\<close>, contains \<open>gold_price\<close>, does not end in a semicolon and
  contains no forbidden keyword.
\<close>

lemma is_space_lower: "is_space (lower_char c) = is_space c"
proof -
  have "of_char c < (256::nat)" by simp
  then show ?thesis
    unfolding is_space_def lower_char_def Let_def
    by (auto simp: of_char_of)
qed

lemma str_rstrip_idem: "str_rstrip (str_rstrip s) = str_rstrip s"
  unfolding str_rstrip_def by (simp add: dropWhile_idem)

lemma str_rstrip_lower: "str_rstrip (str_lower s) = str_lower (str_rstrip s)"
  unfolding str_rstrip_def str_lower_def
  by (simp add: rev_map dropWhile_map comp_def is_space_lower)

lemma rstrip_normalised: "str_rstrip (str_lower (str_strip sql)) = str_lower (str_strip sql)"
  by (simp add: str_rstrip_lower str_strip_def str_rstrip_idem)

lemma semicolon_test:
  "(str_contains '';'' s \<and> str_rstrip_chars '';'' s \<noteq> s) \<longleftrightarrow> (s \<noteq> [] \<and> last s = CHR '';'')"
proof (cases s rule: rev_cases)
  case Nil
  then show ?thesis by (simp add: str_rstrip_chars_def)
next
  case (snoc ys y)
  show ?thesis
  proof (cases "y = CHR '';''")
    case True
    have "length (str_rstrip_chars '';'' s) \<le> length ys"
      unfolding str_rstrip_chars_def snoc
      using True length_dropWhile_le [of "\<lambda>c. c = CHR '';''" "rev ys"] by simp
    then have "str_rstrip_chars '';'' s \<noteq> s" using snoc by auto
    moreover have "str_contains '';'' s"
      unfolding str_contains_iff_sublist snoc True by (rule sublist_append_leftI)
    ultimately show ?thesis using snoc True by simp
  next
    case False
    then have "str_rstrip_chars '';'' s = s"
      unfolding str_rstrip_chars_def snoc by simp
    then show ?thesis using snoc False by simp
  qed
qed

lemma is_safe_sql_iff:
  "is_safe_sql sql \<longleftrightarrow>
     sql \<noteq> [] \<and> prefix ''select'' (str_lower (str_strip sql))
     \<and> sublist ''gold_price'' (str_lower (str_strip sql))
     \<and> last (str_lower (str_strip sql)) \<noteq> CHR '';''
     \<and> (\<forall>kw \<in> set forbidden_keywords. \<not> sublist kw (str_lower (str_strip sql)))"
proof -
  let ?s = "str_lower (str_strip sql)"
  have t: "(sublist '';'' ?s \<and> str_rstrip_chars '';'' (str_rstrip ?s) \<noteq> str_rstrip ?s)
            \<longleftrightarrow> (?s \<noteq> [] \<and> last ?s = CHR '';'')"
    using semicolon_test [of ?s] unfolding rstrip_normalised str_contains_iff_sublist .
  have ne: "prefix ''select'' ?s \<Longrightarrow> ?s \<noteq> []" by auto
  show ?thesis
    unfolding is_safe_sql_def Let_def startswith_iff_prefix str_contains_iff_sublist
      keywords_loop_iff
    using t ne by auto
qed

subsection \<open>Decimal digits\<close>

lemma digit_char_is_digit: "k < 10 \<Longrightarrow> is_digit (digit_char k)"
proof -
  assume "k < 10"
  then have "k \<in> {0, 1, 2, 3, 4, 5, 6, 7, 8, 9}" by auto
  then show ?thesis
    unfolding is_digit_def digit_char_def
    by (elim insertE emptyE; hypsubst; code_simp)
qed

lemma str_nat_digits: "\<forall>c \<in> set (str_nat n). is_digit c"
proof (induction n rule: str_nat.induct)
  case (1 n)
  show ?case
  proof (cases "n < 10")
    case True
    then show ?thesis by (simp add: str_nat.simps [of n] digit_char_is_digit)
  next
    case False
    then show ?thesis using "1" by (simp add: str_nat.simps [of n] digit_char_is_digit)
  qed
qed

lemma str_nat_nonempty: "str_nat n \<noteq> []"
  by (simp add: str_nat.simps [of n])

lemma digit_not_space: "is_digit c \<Longrightarrow> \<not> is_space c"
  unfolding is_digit_def is_space_def by auto

lemma lower_digit: "is_digit c \<Longrightarrow> lower_char c = c"
  unfolding is_digit_def lower_char_def by auto

lemma str_lower_digits: "\<forall>c \<in> set ds. is_digit c \<Longrightarrow> str_lower ds = ds"
  unfolding str_lower_def by (induction ds) (auto simp: lower_digit)

subsection \<open>The gate on a query that ends in a number\<close>

lemma lower_limit_prefix: "str_lower limit_prefix = limit_prefix_lower"
  by code_simp

lemma limit_prefix_facts:
  "keywords_loop forbidden_keywords limit_prefix_lower"
  "str_contains ''gold_price'' limit_prefix_lower"
  "startswith limit_prefix_lower ''select''"
  "\<not> str_contains '';'' limit_prefix_lower"
  by code_simp+

lemma keyword_last_not_digit:
  "kw \<in> set forbidden_keywords \<Longrightarrow> kw \<noteq> [] \<and> \<not> is_digit (last kw)"
  unfolding forbidden_keywords_def is_digit_def by auto

lemma is_safe_limit_digits:
  assumes ds: "ds \<noteq> []" "\<forall>c \<in> set ds. is_digit c"
  shows "is_safe_sql (limit_prefix @ ds)"
proof -
  let ?s = "limit_prefix_lower @ ds"
  have "\<not> is_space (last (limit_prefix @ ds))"
    using ds by (simp add: digit_not_space)
  moreover have "\<not> is_space (hd (limit_prefix @ ds))"
    by (simp add: limit_prefix_def is_space_def)
  ultimately have strip: "str_strip (limit_prefix @ ds) = limit_prefix @ ds"
    using ds by (simp add: str_strip_def str_lstrip_keep str_rstrip_keep)
  have low: "str_lower (limit_prefix @ ds) = ?s"
    using str_lower_digits [OF ds(2)] lower_limit_prefix by (simp add: str_lower_def)
  have sel: "startswith ?s ''select''"
    using limit_prefix_facts(3) by (simp add: startswith_iff_prefix)
  have gp: "str_contains ''gold_price'' ?s"
    using limit_prefix_facts(2) by (simp add: str_contains_iff_sublist sublist_append)
  have semi: "\<not> str_contains '';'' ?s"
  proof
    assume "str_contains '';'' ?s"
    then have "sublist '';'' (limit_prefix_lower @ ds)"
      by (simp add: str_contains_iff_sublist)
    moreover have "'';'' \<noteq> []" by simp
    moreover have "\<not> is_digit (last '';'')" by (simp add: is_digit_def)
    then have "last '';'' \<notin> set ds" using ds(2) by blast
    ultimately have "sublist '';'' limit_prefix_lower" by (rule sublist_append_cut)
    with limit_prefix_facts(4) show False by (simp add: str_contains_iff_sublist)
  qed
  have kws: "keywords_loop forbidden_keywords ?s"
    unfolding keywords_loop_iff
  proof
    fix kw assume kw: "kw \<in> set forbidden_keywords"
    show "\<not> sublist kw ?s"
    proof
      assume "sublist kw ?s"
      moreover from kw have "kw \<noteq> []" "last kw \<notin> set ds"
        using keyword_last_not_digit ds(2) by blast+
      ultimately have "sublist kw limit_prefix_lower" by (rule sublist_append_cut)
      with kw limit_prefix_facts(1) show False by (simp add: keywords_loop_iff)
    qed
  qed
  have ne: "limit_prefix @ ds \<noteq> []" using ds by simp
  show ?thesis
    unfolding is_safe_sql_def Let_def strip low
    using sel gp semi kws ne by simp
qed

lemma is_safe_price_range_sql: "0 \<le> days \<Longrightarrow> is_safe_sql (price_range_sql days)"
  unfolding price_range_sql_def str_int_def
  using is_safe_limit_digits [OF str_nat_nonempty str_nat_digits, of "nat days"]
  by (simp add: limit_prefix_def)

lemma price_range_sql_7:
  "price_range_sql 7 = ''SELECT * FROM gold_price ORDER BY date DESC LIMIT 7''"
  by code_simp

section \<open>Facts about the existence check and the executor\<close>

lemma check_true_iff:
  "check_database_exists d t = (Inr True, t1) \<longleftrightarrow>
     path_exists d \<and> on_connect d = None
     \<and> (\<exists>rows. on_execute d table_probe_sql = Inr rows \<and> rows \<noteq> [])
     \<and> t1 = t @ [Opened, Executed table_probe_sql, Closed]"
  unfolding check_database_exists_def
  by (auto split: option.splits sum.splits exn.splits)

lemma check_missing: "\<not> path_exists d \<Longrightarrow> check_database_exists d t = (Inr False, t)"
  by (simp add: check_database_exists_def)

lemma probe_is_safe: "is_safe_sql table_probe_sql"
  by code_simp

lemma check_trace:
  "snd (check_database_exists d t) = t
   \<or> snd (check_database_exists d t) = t @ [ConnectFailed]
   \<or> snd (check_database_exists d t) = t @ [Opened, Executed table_probe_sql]
   \<or> snd (check_database_exists d t) = t @ [Opened, Executed table_probe_sql, Closed]"
  unfolding check_database_exists_def
  by (simp split: option.splits sum.splits exn.splits)

lemma execute_rejected_trace:
  "\<not> is_safe_sql sql \<Longrightarrow> snd (execute_sql_query d sql t) = snd (check_database_exists d t)"
  unfolding execute_sql_query_def
  by (simp split: prod.splits sum.splits)

lemma execute_success:
  assumes "execute_sql_query d sql t = (Inr (Success data n q), t')"
  shows "\<exists>rows. on_execute d sql = Inr rows \<and> data = map (dict_of_row d) rows
           \<and> n = length data \<and> q = sql \<and> is_safe_sql sql"
  using assms unfolding execute_sql_query_def error_reply_def
  by (auto simp: Let_def split: prod.splits sum.splits option.splits exn.splits if_splits)

lemma execute_not_rejected:
  assumes "is_safe_sql sql"
  shows "fst (execute_sql_query d sql t) \<noteq> Inr (Failure unsafe_sql_message p)"
  using assms unfolding execute_sql_query_def error_reply_def
  by (auto simp: Let_def unsafe_sql_message_def db_missing_message_def
      split: prod.splits sum.splits option.splits exn.splits)

text \<open>A query that passes both gates gets one connection, which is closed.\<close>

lemma executor_closes:
  assumes "check_database_exists d t = (Inr True, t1)" and "is_safe_sql sql"
  shows "snd (execute_sql_query d sql t) = t1 @ [Opened, Executed sql, Closed]"
proof -
  from assms have "on_connect d = None" by (simp add: check_true_iff)
  with assms show ?thesis
    by (simp add: execute_sql_query_def Let_def split: sum.splits)
qed

section \<open>Facts about the decimal literal and the sample engine\<close>

text \<open>Reading back what \<open>str\<close> printed gives the number: the text the program builds for
  \<open>LIMIT\<close> is the literal of \<open>days\<close>.\<close>

lemma of_char_digit_char: "k < 10 \<Longrightarrow> of_char (digit_char k) - 48 = k"
  by (simp add: digit_char_def)

lemma decimal_acc_snoc:
  "decimal_acc acc (xs @ [c]) =
     (case decimal_acc acc xs of
        None \<Rightarrow> None
      | Some v \<Rightarrow> if is_digit c then Some (10 * v + (of_char c - 48)) else None)"
  by (induction xs arbitrary: acc) auto

lemma decimal_acc_str_nat: "decimal_acc 0 (str_nat n) = Some n"
proof (induction n rule: str_nat.induct)
  case (1 n)
  show ?case
  proof (cases "n < 10")
    case True
    then show ?thesis
      by (simp add: str_nat.simps [of n] digit_char_is_digit of_char_digit_char)
  next
    case False
    then have "decimal_acc 0 (str_nat (n div 10)) = Some (n div 10)" using "1" by simp
    moreover have "n mod 10 < 10" by simp
    ultimately show ?thesis using False
      by (simp add: str_nat.simps [of n] decimal_acc_snoc digit_char_is_digit
          of_char_digit_char)
  qed
qed

lemma decimal_value_str_int: "0 \<le> days \<Longrightarrow> decimal_value (str_int days) = Some (nat days)"
  by (simp add: decimal_value_def str_int_def str_nat_nonempty decimal_acc_str_nat)

lemma sample_date_dict: "sample_date (dict_of_row (table_driver tbl) r) = fst r"
  by (cases r) (simp add: table_driver_def sample_date_def)

lemma order_by_date_desc_sorted:
  "sorted_wrt (\<lambda>a b. fst b \<le> fst a) (order_by_date_desc tbl)"
proof -
  have "sorted (map fst (sort_key fst tbl))" by (rule sorted_sort_key)
  then have "sorted_wrt (\<lambda>a b. fst a \<le> fst b) (sort_key fst tbl)"
    by (simp add: sorted_map)
  then show ?thesis
    unfolding order_by_date_desc_def by (simp add: sorted_wrt_rev)
qed

lemma limit_of_prefix: "limit_of (limit_prefix @ ds) = decimal_value ds"
  by (simp add: limit_of_def startswith_iff_prefix)

lemma limit_query_distinct:
  "limit_prefix @ ds \<noteq> table_probe_sql" "limit_prefix @ ds \<noteq> count_sql"
  by (simp_all add: limit_prefix_def table_probe_sql_def count_sql_def)

lemma table_driver_honours:
  "honours_order_limit (table_driver tbl) sample_date (order_by_date_desc tbl)"
proof -
  have "on_execute (table_driver tbl) (limit_prefix @ ds) = Inr (take n (order_by_date_desc tbl))"
    if "decimal_value ds = Some n" for ds n
    using that by (simp add: table_driver_def limit_query_distinct limit_of_prefix)
  then show ?thesis
    unfolding honours_order_limit_def
    using order_by_date_desc_sorted [of tbl]
    by (simp add: sample_date_dict limit_prefix_def)
qed

lemma honours_answer:
  assumes "honours_order_limit d date_of ordered" and "1 \<le> days \<and> days \<le> 365"
  shows "on_execute d (price_range_sql days) = Inr (take (nat days) ordered)"
proof -
  from assms(2) have "decimal_value (str_int days) = Some (nat days)"
    by (simp add: decimal_value_str_int)
  moreover have "nat days < 2 ^ 63"
  proof -
    from assms(2) have "nat days \<le> 365" by linarith
    also have "(365::nat) < 2 ^ 63" by simp
    finally show ?thesis .
  qed
  ultimately show ?thesis
    using assms(1) unfolding honours_order_limit_def price_range_sql_def by blast
qed

section \<open>The safety gate: claims C1 to C4 and C10\<close>

text \<open>
  Claim C1: a semicolon is acceptable only as a single trailing terminator, so a string in
  which a semicolon is followed by further content, such as the two-statement string
  \<open>select * from gold_price; select * from gold_price\<close>, is rejected, and a single trailing
  semicolon does not cause rejection. The code does the opposite. Its test compares the text
  with its trailing semicolons removed against the text itself, which differ exactly when
  the text ends in a semicolon: the two-statement string passes the gate, and the query with
  a single trailing semicolon (followed by white space or not) is rejected.
\<close>

theorem stacked_statements_pass_gate:
  "is_safe_sql ''select * from gold_price; select * from gold_price''
   \<and> \<not> is_safe_sql ''select * from gold_price;''
   \<and> \<not> is_safe_sql ''select * from gold_price; ''"
  by code_simp

text \<open>
  Claim C2: a string whose trimmed, lower-cased form contains one of the eleven forbidden
  keywords as a substring, wherever it stands, is rejected, also when the string starts
  with \<open>select\<close> and contains \<open>gold_price\<close>.
\<close>

theorem forbidden_keyword_rejected:
  assumes "kw \<in> set [''insert'', ''update'', ''delete'', ''drop'', ''alter'', ''create'',
                      ''truncate'', ''replace'', ''pragma'', ''attach'', ''detach'']"
    and "sublist kw (str_lower (str_strip sql))"
  shows "\<not> is_safe_sql sql"
  using assms unfolding is_safe_sql_def Let_def forbidden_keywords_def keywords_loop_iff
  by auto

text \<open>The keyword \<open>drop\<close> inside a column name of a query on \<open>gold_price\<close>.\<close>

theorem forbidden_keyword_rejected_witness:
  "prefix ''select'' (str_lower (str_strip ''  SELECT dropped FROM gold_price ''))
   \<and> sublist ''gold_price'' (str_lower (str_strip ''  SELECT dropped FROM gold_price ''))
   \<and> sublist ''drop'' (str_lower (str_strip ''  SELECT dropped FROM gold_price ''))
   \<and> \<not> is_safe_sql ''  SELECT dropped FROM gold_price ''"
proof -
  have low: "str_lower (str_strip ''  SELECT dropped FROM gold_price '')
               = ''select dropped from gold_price''"
    by code_simp
  have kw: "''drop'' \<in> set [''insert'', ''update'', ''delete'', ''drop'', ''alter'', ''create'',
                             ''truncate'', ''replace'', ''pragma'', ''attach'', ''detach'']"
    by simp
  have sub: "sublist ''drop'' (str_lower (str_strip ''  SELECT dropped FROM gold_price ''))"
    unfolding low str_contains_iff_sublist [symmetric] by simp
  have sel: "prefix ''select'' (str_lower (str_strip ''  SELECT dropped FROM gold_price ''))"
    unfolding low by simp
  have gp: "sublist ''gold_price'' (str_lower (str_strip ''  SELECT dropped FROM gold_price ''))"
    unfolding low str_contains_iff_sublist [symmetric] by simp
  have "\<not> is_safe_sql ''  SELECT dropped FROM gold_price ''"
    by (rule forbidden_keyword_rejected [OF kw sub])
  with sel gp sub show ?thesis by simp
qed

text \<open>
  Claim C3: the empty string is rejected, and so is every string whose trimmed, lower-cased
  form does not start with \<open>select\<close>.
\<close>

theorem not_select_rejected:
  assumes "sql = [] \<or> \<not> prefix ''select'' (str_lower (str_strip sql))"
  shows "\<not> is_safe_sql sql"
  using assms unfolding is_safe_sql_def Let_def startswith_iff_prefix by auto

theorem not_select_rejected_witness:
  "\<not> is_safe_sql []
   \<and> \<not> prefix ''select'' (str_lower (str_strip '' Update gold_price SET price = 0''))
   \<and> \<not> is_safe_sql '' Update gold_price SET price = 0''"
proof -
  have low: "str_lower (str_strip '' Update gold_price SET price = 0'')
               = ''update gold_price set price = 0''"
    by code_simp
  have np: "\<not> prefix ''select'' (str_lower (str_strip '' Update gold_price SET price = 0''))"
    unfolding low by simp
  have "\<not> is_safe_sql []"
    by (rule not_select_rejected) simp
  moreover have "\<not> is_safe_sql '' Update gold_price SET price = 0''"
    by (rule not_select_rejected) (simp add: np)
  ultimately show ?thesis using np by simp
qed

text \<open>
  Claim C4: every string whose trimmed, lower-cased form does not contain the substring
  \<open>gold_price\<close> is rejected; \<open>select * from other_table\<close> is rejected and the canonical
  query \<open>select * from gold_price\<close> is accepted. The check is on substrings, so it is also
  met by \<open>gold_price\<close> inside a longer name.
\<close>

theorem gold_price_required:
  "(\<not> sublist ''gold_price'' (str_lower (str_strip sql)) \<longrightarrow> \<not> is_safe_sql sql)
   \<and> \<not> is_safe_sql ''select * from other_table''
   \<and> is_safe_sql ''select * from gold_price''
   \<and> is_safe_sql ''select sold_gold_priced from t''"
proof (intro conjI impI)
  assume "\<not> sublist ''gold_price'' (str_lower (str_strip sql))"
  then show "\<not> is_safe_sql sql"
    unfolding is_safe_sql_def Let_def str_contains_iff_sublist by auto
next
  show "\<not> is_safe_sql ''select * from other_table''" by code_simp
  show "is_safe_sql ''select * from gold_price''" by code_simp
  show "is_safe_sql ''select sold_gold_priced from t''" by code_simp
qed

theorem gold_price_required_witness:
  "\<not> sublist ''gold_price'' (str_lower (str_strip ''SELECT price FROM Gold_Rates''))
   \<and> \<not> is_safe_sql ''SELECT price FROM Gold_Rates''"
proof -
  have low: "str_lower (str_strip ''SELECT price FROM Gold_Rates'')
               = ''select price from gold_rates''"
    by code_simp
  have ns: "\<not> sublist ''gold_price'' (str_lower (str_strip ''SELECT price FROM Gold_Rates''))"
    unfolding low str_contains_iff_sublist [symmetric] by simp
  from gold_price_required [of "''SELECT price FROM Gold_Rates''"] ns
  have "\<not> is_safe_sql ''SELECT price FROM Gold_Rates''" by blast
  with ns show ?thesis by simp
qed

text \<open>
  Claim C10: every fixed query of the canned operations passes the safety gate: the two
  constant queries with \<open>LIMIT 5\<close> and \<open>LIMIT 1\<close>, and the interpolated query for every
  \<open>days\<close> from 1 to 365. Hence \<open>sample_data\<close>, \<open>get_latest_price\<close> and \<open>get_price_range\<close> with
  such a \<open>days\<close> never return the failure that reports unsafe SQL.
\<close>

theorem canned_queries_pass_gate:
  "is_safe_sql ''SELECT * FROM gold_price ORDER BY date DESC LIMIT 5''
   \<and> is_safe_sql ''SELECT * FROM gold_price ORDER BY date DESC LIMIT 1''
   \<and> (1 \<le> days \<and> days \<le> 365 \<longrightarrow>
        is_safe_sql (''SELECT * FROM gold_price ORDER BY date DESC LIMIT '' @ str_int days))
   \<and> fst (sample_data d t) \<noteq> Inr (Failure unsafe_sql_message p)
   \<and> fst (get_latest_price d t) \<noteq> Inr (Failure unsafe_sql_message p)
   \<and> (1 \<le> days \<and> days \<le> 365 \<longrightarrow>
        fst (get_price_range d days t) \<noteq> Inr (Failure unsafe_sql_message p))"
proof (intro conjI impI)
  show five: "is_safe_sql ''SELECT * FROM gold_price ORDER BY date DESC LIMIT 5''"
    by code_simp
  show one: "is_safe_sql ''SELECT * FROM gold_price ORDER BY date DESC LIMIT 1''"
    by code_simp
  show "fst (sample_data d t) \<noteq> Inr (Failure unsafe_sql_message p)"
    unfolding sample_data_def sample_data_sql_def by (rule execute_not_rejected [OF five])
  show "fst (get_latest_price d t) \<noteq> Inr (Failure unsafe_sql_message p)"
    unfolding get_latest_price_def latest_price_sql_def by (rule execute_not_rejected [OF one])
next
  assume "1 \<le> days \<and> days \<le> 365"
  then have "is_safe_sql (price_range_sql days)" by (simp add: is_safe_price_range_sql)
  then show "is_safe_sql (''SELECT * FROM gold_price ORDER BY date DESC LIMIT '' @ str_int days)"
    by (simp add: price_range_sql_def)
next
  assume range: "1 \<le> days \<and> days \<le> 365"
  then have "is_safe_sql (price_range_sql days)" by (simp add: is_safe_price_range_sql)
  then have "fst (execute_sql_query d (price_range_sql days) t)
               \<noteq> Inr (Failure unsafe_sql_message p)"
    by (rule execute_not_rejected)
  with range show "fst (get_price_range d days t) \<noteq> Inr (Failure unsafe_sql_message p)"
    by (simp add: get_price_range_def)
qed

theorem canned_queries_pass_gate_witness:
  "(1::int) \<le> 365 \<and> (365::int) \<le> 365
   \<and> is_safe_sql ''SELECT * FROM gold_price ORDER BY date DESC LIMIT 365''
   \<and> fst (get_price_range ready_driver 365 []) \<noteq> Inr (Failure unsafe_sql_message None)"
proof -
  have s: "str_int 365 = ''365''" by code_simp
  have r: "(1::int) \<le> 365 \<and> (365::int) \<le> 365" by simp
  note T = canned_queries_pass_gate [where days = 365 and d = ready_driver and t = "[]"
      and p = None]
  from T r have "is_safe_sql (''SELECT * FROM gold_price ORDER BY date DESC LIMIT '' @ str_int 365)"
    by blast
  then have "is_safe_sql ''SELECT * FROM gold_price ORDER BY date DESC LIMIT 365''"
    by (simp add: s)
  moreover from T r
  have "fst (get_price_range ready_driver 365 []) \<noteq> Inr (Failure unsafe_sql_message None)"
    by blast
  ultimately show ?thesis by simp
qed

section \<open>The executor and the tool surface: claims C5 to C9\<close>

text \<open>
  Claim C5: for \<open>days\<close> below 1 or above 365, \<open>get_price_range\<close> returns a failure at once
  and leaves the database untouched (the trace of database events is unchanged). For \<open>days\<close>
  from 1 to 365 it hands the executor the fixed query with \<open>ORDER BY date DESC\<close> and
  \<open>LIMIT\<close> followed by the decimal literal of \<open>days\<close>. On an engine that honours the order
  and the limit, a success carries exactly the first \<open>days\<close> rows of the ordered table, one
  dictionary each: at most \<open>days\<close> rows, the most recent first, and no row left out is more
  recent than a row returned; when the existence check passes, that success is the result.
  For \<open>days = 7\<close> these are at most 7 rows, the most recent first.
\<close>

theorem get_price_range_checks_days:
  fixes d :: "('row, 'dict) driver" and date_of :: "'dict \<Rightarrow> 'k::linorder"
  shows
  "(days < 1 \<or> 365 < days \<longrightarrow>
      get_price_range d days t = (Inr (Failure ''Days must be between 1 and 365'' None), t))
   \<and> (1 \<le> days \<and> days \<le> 365 \<longrightarrow>
      decimal_value (str_int days) = Some (nat days)
      \<and> get_price_range d days t =
          execute_sql_query d
            (''SELECT * FROM gold_price ORDER BY date DESC LIMIT '' @ str_int days) t)
   \<and> (1 \<le> days \<and> days \<le> 365 \<and> honours_order_limit d date_of ordered
       \<and> get_price_range d days t = (Inr (Success data n q), t')
      \<longrightarrow> data = map (dict_of_row d) (take (nat days) ordered)
          \<and> length data \<le> nat days \<and> n = length data
          \<and> sorted_wrt (\<lambda>a b. date_of b \<le> date_of a) data
          \<and> (\<forall>r \<in> set (drop (nat days) ordered). \<forall>x \<in> set data.
                date_of (dict_of_row d r) \<le> date_of x))
   \<and> (1 \<le> days \<and> days \<le> 365 \<and> honours_order_limit d date_of ordered
       \<and> check_database_exists d t = (Inr True, t1)
      \<longrightarrow> get_price_range d days t =
            (Inr (Success (map (dict_of_row d) (take (nat days) ordered))
                    (min (nat days) (length ordered))
                    (''SELECT * FROM gold_price ORDER BY date DESC LIMIT '' @ str_int days)),
             t1 @ [Opened,
                   Executed (''SELECT * FROM gold_price ORDER BY date DESC LIMIT '' @ str_int days),
                   Closed]))"
proof (intro conjI impI)
  assume "days < 1 \<or> 365 < days"
  then show "get_price_range d days t =
               (Inr (Failure ''Days must be between 1 and 365'' None), t)"
    by (auto simp: get_price_range_def)
next
  assume "1 \<le> days \<and> days \<le> 365"
  then show "decimal_value (str_int days) = Some (nat days)"
    by (simp add: decimal_value_str_int)
next
  assume "1 \<le> days \<and> days \<le> 365"
  then show "get_price_range d days t =
               execute_sql_query d
                 (''SELECT * FROM gold_price ORDER BY date DESC LIMIT '' @ str_int days) t"
    by (simp add: get_price_range_def price_range_sql_def)
next
  assume h: "1 \<le> days \<and> days \<le> 365 \<and> honours_order_limit d date_of ordered
       \<and> get_price_range d days t = (Inr (Success data n q), t')"
  then have ans: "on_execute d (price_range_sql days) = Inr (take (nat days) ordered)"
    using honours_answer by blast
  from h have range: "\<not> (days < 1 \<or> 365 < days)" by linarith
  from h have "execute_sql_query d (price_range_sql days) t = (Inr (Success data n q), t')"
    by (simp add: get_price_range_def range)
  from execute_success [OF this] ans
  have data: "data = map (dict_of_row d) (take (nat days) ordered)" and n: "n = length data"
    by auto
  from h have srt: "sorted_wrt (\<lambda>a b. date_of (dict_of_row d b) \<le> date_of (dict_of_row d a))
                      (take (nat days) ordered @ drop (nat days) ordered)"
    by (simp add: honours_order_limit_def)
  show "data = map (dict_of_row d) (take (nat days) ordered)" by (rule data)
  show "length data \<le> nat days" unfolding data by simp
  show "n = length data" by (rule n)
  show "sorted_wrt (\<lambda>a b. date_of b \<le> date_of a) data"
    using srt unfolding data sorted_wrt_append by (simp add: sorted_wrt_map)
  show "\<forall>r \<in> set (drop (nat days) ordered). \<forall>x \<in> set data.
          date_of (dict_of_row d r) \<le> date_of x"
    using srt unfolding data sorted_wrt_append by auto
next
  assume h: "1 \<le> days \<and> days \<le> 365 \<and> honours_order_limit d date_of ordered
       \<and> check_database_exists d t = (Inr True, t1)"
  then have ans: "on_execute d (price_range_sql days) = Inr (take (nat days) ordered)"
    using honours_answer by blast
  from h have safe: "is_safe_sql (price_range_sql days)"
    by (simp add: is_safe_price_range_sql)
  from h have conn: "on_connect d = None" by (simp add: check_true_iff)
  from h have range: "\<not> (days < 1 \<or> 365 < days)" by linarith
  have "get_price_range d days t = execute_sql_query d (price_range_sql days) t"
    by (simp add: get_price_range_def range)
  also have "\<dots> = (Inr (Success (map (dict_of_row d) (take (nat days) ordered))
                      (min (nat days) (length ordered)) (price_range_sql days)),
                    t1 @ [Opened, Executed (price_range_sql days), Closed])"
    using h ans safe conn by (simp add: execute_sql_query_def min.commute)
  finally show "get_price_range d days t =
            (Inr (Success (map (dict_of_row d) (take (nat days) ordered))
                    (min (nat days) (length ordered))
                    (''SELECT * FROM gold_price ORDER BY date DESC LIMIT '' @ str_int days)),
             t1 @ [Opened,
                   Executed (''SELECT * FROM gold_price ORDER BY date DESC LIMIT '' @ str_int days),
                   Closed])"
    by (simp add: price_range_sql_def)
qed

text \<open>
  On the sample engine with its ten rows stored out of order: 0 and 366 are refused with the
  trace still empty, 7 yields the seven most recent rows in descending order, and 365 yields
  all ten.
\<close>

theorem get_price_range_checks_days_witness:
  "get_price_range (table_driver sample_table) 0 [] =
      (Inr (Failure ''Days must be between 1 and 365'' None), [])
   \<and> get_price_range (table_driver sample_table) 366 [] =
      (Inr (Failure ''Days must be between 1 and 365'' None), [])
   \<and> decimal_value (str_int 7) = Some 7 \<and> str_int 7 = ''7''
   \<and> decimal_value (str_int 365) = Some 365 \<and> str_int 365 = ''365''
   \<and> check_database_exists (table_driver sample_table) [] =
      (Inr True, [Opened, Executed table_probe_sql, Closed])
   \<and> get_price_range (table_driver sample_table) 7 [] =
      (Inr (Success [[(''date'', 10), (''price'', 2020)], [(''date'', 9), (''price'', 2010)],
                     [(''date'', 8), (''price'', 2001)], [(''date'', 7), (''price'', 1995)],
                     [(''date'', 6), (''price'', 1992)], [(''date'', 5), (''price'', 1980)],
                     [(''date'', 4), (''price'', 1975)]] 7
              ''SELECT * FROM gold_price ORDER BY date DESC LIMIT 7''),
       [Opened, Executed table_probe_sql, Closed,
        Opened, Executed ''SELECT * FROM gold_price ORDER BY date DESC LIMIT 7'', Closed])
   \<and> get_price_range (table_driver sample_table) 365 [] =
      (Inr (Success [[(''date'', 10), (''price'', 2020)], [(''date'', 9), (''price'', 2010)],
                     [(''date'', 8), (''price'', 2001)], [(''date'', 7), (''price'', 1995)],
                     [(''date'', 6), (''price'', 1992)], [(''date'', 5), (''price'', 1980)],
                     [(''date'', 4), (''price'', 1975)], [(''date'', 3), (''price'', 1990)],
                     [(''date'', 2), (''price'', 1985)], [(''date'', 1), (''price'', 1970)]] 10
              ''SELECT * FROM gold_price ORDER BY date DESC LIMIT 365''),
       [Opened, Executed table_probe_sql, Closed,
        Opened, Executed ''SELECT * FROM gold_price ORDER BY date DESC LIMIT 365'', Closed])"
proof -
  let ?d = "table_driver sample_table"
  let ?ordered = "order_by_date_desc sample_table"
  note T = get_price_range_checks_days [where d = ?d and t = "[]" and date_of = sample_date
      and ordered = ?ordered and ?t1.0 = "[Opened, Executed table_probe_sql, Closed]"]
  have hon: "honours_order_limit ?d sample_date ?ordered" by (rule table_driver_honours)
  have chk: "check_database_exists ?d [] = (Inr True, [Opened, Executed table_probe_sql, Closed])"
    by code_simp
  have s7: "str_int 7 = ''7''" and s365: "str_int 365 = ''365''" by code_simp+
  have low: "get_price_range ?d 0 [] = (Inr (Failure ''Days must be between 1 and 365'' None), [])"
    using T [where days = 0, THEN conjunct1] by simp
  have high: "get_price_range ?d 366 [] =
                (Inr (Failure ''Days must be between 1 and 365'' None), [])"
    using T [where days = 366, THEN conjunct1] by simp
  have d7: "decimal_value (str_int 7) = Some 7"
    using T [where days = 7, THEN conjunct2, THEN conjunct1] by simp
  have d365: "decimal_value (str_int 365) = Some 365"
    using T [where days = 365, THEN conjunct2, THEN conjunct1] by simp
  have rows7: "map (dict_of_row ?d) (take (nat 7) ?ordered) =
      [[(''date'', 10), (''price'', 2020)], [(''date'', 9), (''price'', 2010)],
       [(''date'', 8), (''price'', 2001)], [(''date'', 7), (''price'', 1995)],
       [(''date'', 6), (''price'', 1992)], [(''date'', 5), (''price'', 1980)],
       [(''date'', 4), (''price'', 1975)]]"
    by code_simp
  have rows365: "map (dict_of_row ?d) (take (nat 365) ?ordered) =
      [[(''date'', 10), (''price'', 2020)], [(''date'', 9), (''price'', 2010)],
       [(''date'', 8), (''price'', 2001)], [(''date'', 7), (''price'', 1995)],
       [(''date'', 6), (''price'', 1992)], [(''date'', 5), (''price'', 1980)],
       [(''date'', 4), (''price'', 1975)], [(''date'', 3), (''price'', 1990)],
       [(''date'', 2), (''price'', 1985)], [(''date'', 1), (''price'', 1970)]]"
    by code_simp
  have len: "length ?ordered = 10" by code_simp
  have r7: "get_price_range ?d 7 [] =
      (Inr (Success [[(''date'', 10), (''price'', 2020)], [(''date'', 9), (''price'', 2010)],
                     [(''date'', 8), (''price'', 2001)], [(''date'', 7), (''price'', 1995)],
                     [(''date'', 6), (''price'', 1992)], [(''date'', 5), (''price'', 1980)],
                     [(''date'', 4), (''price'', 1975)]] 7
              ''SELECT * FROM gold_price ORDER BY date DESC LIMIT 7''),
       [Opened, Executed table_probe_sql, Closed,
        Opened, Executed ''SELECT * FROM gold_price ORDER BY date DESC LIMIT 7'', Closed])"
    using T [where days = 7, THEN conjunct2, THEN conjunct2, THEN conjunct2] hon chk
    unfolding rows7 len s7 by simp
  have r365: "get_price_range ?d 365 [] =
      (Inr (Success [[(''date'', 10), (''price'', 2020)], [(''date'', 9), (''price'', 2010)],
                     [(''date'', 8), (''price'', 2001)], [(''date'', 7), (''price'', 1995)],
                     [(''date'', 6), (''price'', 1992)], [(''date'', 5), (''price'', 1980)],
                     [(''date'', 4), (''price'', 1975)], [(''date'', 3), (''price'', 1990)],
                     [(''date'', 2), (''price'', 1985)], [(''date'', 1), (''price'', 1970)]] 10
              ''SELECT * FROM gold_price ORDER BY date DESC LIMIT 365''),
       [Opened, Executed table_probe_sql, Closed,
        Opened, Executed ''SELECT * FROM gold_price ORDER BY date DESC LIMIT 365'', Closed])"
    using T [where days = 365, THEN conjunct2, THEN conjunct2, THEN conjunct2] hon chk
    unfolding rows365 len s365 by simp
  from low high d7 s7 d365 s365 chk r7 r365 show ?thesis by simp
qed

text \<open>
  Claim C6, as stated, ends with: no database access occurs for a rejected query. On the
  ready sample database the rejected query \<open>DROP TABLE gold_price\<close> gets the fixed rejection
  message after a connection was opened, the schema catalog queried and the connection
  closed: the existence check runs first, and it reads the database.
\<close>

theorem rejected_query_probes_database:
  "\<not> is_safe_sql ''DROP TABLE gold_price''
   \<and> execute_sql_query ready_driver ''DROP TABLE gold_price'' [] =
       (Inr (Failure unsafe_sql_message None), [Opened, Executed table_probe_sql, Closed])"
  by code_simp

text \<open>
  Claim C6, amended: \<open>execute_sql_query\<close> checks its two preconditions in order. If the
  existence check fails, the result is the failure with the setup message and the absolute
  path, whatever the SQL is. Otherwise, if the gate rejects the SQL, the result is the
  failure with one fixed message, the same for every rejected query. For a rejected query
  the only database access is that of the existence check, which runs before the gate; the
  rejected query itself is never executed.
\<close>

theorem executor_preconditions_in_order:
  "(check_database_exists d t = (Inr False, t1) \<longrightarrow>
      (\<forall>sql'. execute_sql_query d sql' t =
                (Inr (Failure db_missing_message (Some (abspath d))), t1)))
   \<and> (check_database_exists d t = (Inr True, t1) \<and> \<not> is_safe_sql sql \<longrightarrow>
      execute_sql_query d sql t = (Inr (Failure unsafe_sql_message None), t1))
   \<and> (\<not> is_safe_sql sql \<longrightarrow>
      snd (execute_sql_query d sql t) = snd (check_database_exists d t)
      \<and> Executed sql \<notin> set (drop (length t) (snd (execute_sql_query d sql t))))"
proof (intro conjI impI allI)
  fix sql'
  assume "check_database_exists d t = (Inr False, t1)"
  then show "execute_sql_query d sql' t =
               (Inr (Failure db_missing_message (Some (abspath d))), t1)"
    by (simp add: execute_sql_query_def)
next
  assume "check_database_exists d t = (Inr True, t1) \<and> \<not> is_safe_sql sql"
  then show "execute_sql_query d sql t = (Inr (Failure unsafe_sql_message None), t1)"
    by (simp add: execute_sql_query_def)
next
  assume "\<not> is_safe_sql sql"
  then show "snd (execute_sql_query d sql t) = snd (check_database_exists d t)"
    by (rule execute_rejected_trace)
next
  assume unsafe: "\<not> is_safe_sql sql"
  then have neq: "sql \<noteq> table_probe_sql" using probe_is_safe by auto
  have eq: "snd (execute_sql_query d sql t) = snd (check_database_exists d t)"
    using unsafe by (rule execute_rejected_trace)
  show "Executed sql \<notin> set (drop (length t) (snd (execute_sql_query d sql t)))"
    unfolding eq using check_trace [of d t] neq by auto
qed

theorem executor_preconditions_in_order_witness:
  "check_database_exists missing_driver [] = (Inr False, [])
   \<and> execute_sql_query missing_driver ''select * from gold_price'' [] =
       (Inr (Failure db_missing_message (Some SQLITE_DB_PATH)), [])
   \<and> execute_sql_query missing_driver ''DROP TABLE gold_price'' [] =
       (Inr (Failure db_missing_message (Some SQLITE_DB_PATH)), [])
   \<and> check_database_exists ready_driver [] =
       (Inr True, [Opened, Executed table_probe_sql, Closed])
   \<and> \<not> is_safe_sql ''DROP TABLE gold_price''
   \<and> execute_sql_query ready_driver ''DROP TABLE gold_price'' [] =
       (Inr (Failure unsafe_sql_message None), [Opened, Executed table_probe_sql, Closed])
   \<and> Executed ''DROP TABLE gold_price''
        \<notin> set (snd (execute_sql_query ready_driver ''DROP TABLE gold_price'' []))"
proof -
  have m: "check_database_exists missing_driver [] = (Inr False, [])" by code_simp
  have p: "abspath missing_driver = SQLITE_DB_PATH" by (simp add: missing_driver_def)
  have r: "check_database_exists ready_driver [] =
             (Inr True, [Opened, Executed table_probe_sql, Closed])"
    by code_simp
  have u: "\<not> is_safe_sql ''DROP TABLE gold_price''" by code_simp
  from executor_preconditions_in_order [where d = missing_driver and t = "[]" and ?t1.0 = "[]"] m
  have all: "\<forall>sql'. execute_sql_query missing_driver sql' [] =
                     (Inr (Failure db_missing_message (Some SQLITE_DB_PATH)), [])"
    by (simp add: p)
  note T = executor_preconditions_in_order [where d = ready_driver and t = "[]"
      and ?t1.0 = "[Opened, Executed table_probe_sql, Closed]"
      and sql = "''DROP TABLE gold_price''"]
  from T r u have rej: "execute_sql_query ready_driver ''DROP TABLE gold_price'' [] =
      (Inr (Failure unsafe_sql_message None), [Opened, Executed table_probe_sql, Closed])"
    by blast
  from T u have "Executed ''DROP TABLE gold_price''
      \<notin> set (drop (length ([] :: event list))
                (snd (execute_sql_query ready_driver ''DROP TABLE gold_price'' [])))"
    by blast
  then have "Executed ''DROP TABLE gold_price''
      \<notin> set (snd (execute_sql_query ready_driver ''DROP TABLE gold_price'' []))"
    by simp
  with m all r u rej show ?thesis by simp
qed

text \<open>
  Claim C7: for a query that passes the existence check and the safety gate and that the
  driver executes without error, \<open>run_query\<close> returns a success whose row count is the
  length of the returned row sequence and whose query field is the caller's string,
  unmodified; that same string is what was executed.
\<close>

theorem run_query_success:
  assumes "check_database_exists d t = (Inr True, t1)" and "is_safe_sql sql"
    and "on_connect d = None" and "on_execute d sql = Inr rows"
  shows "\<exists>data. data = map (dict_of_row d) rows \<and> length data = length rows \<and>
           run_query d sql t =
             (Inr (Success data (length data) sql), t1 @ [Opened, Executed sql, Closed])"
  using assms by (simp add: run_query_def execute_sql_query_def)

theorem run_query_success_witness:
  "check_database_exists ready_driver [] = (Inr True, [Opened, Executed table_probe_sql, Closed])
   \<and> is_safe_sql ''  Select price From gold_price  ''
   \<and> on_connect ready_driver = None
   \<and> on_execute ready_driver ''  Select price From gold_price  '' =
        Inr [(3, 1990), (2, 1985), (1, 1970)]
   \<and> run_query ready_driver ''  Select price From gold_price  '' [] =
       (Inr (Success [[(''date'', 3), (''price'', 1990)], [(''date'', 2), (''price'', 1985)],
                      [(''date'', 1), (''price'', 1970)]] 3 ''  Select price From gold_price  ''),
        [Opened, Executed table_probe_sql, Closed,
         Opened, Executed ''  Select price From gold_price  '', Closed])"
proof -
  have c: "check_database_exists ready_driver [] =
             (Inr True, [Opened, Executed table_probe_sql, Closed])"
    by code_simp
  have s: "is_safe_sql ''  Select price From gold_price  ''" by code_simp
  have n: "on_connect ready_driver = None" by (simp add: ready_driver_def)
  have e: "on_execute ready_driver ''  Select price From gold_price  '' =
             Inr [(3, 1990), (2, 1985), (1, 1970)]"
    by code_simp
  have dict: "map (dict_of_row ready_driver) [(3, 1990), (2, 1985), (1, 1970)] =
      [[(''date'', 3), (''price'', 1990)], [(''date'', 2), (''price'', 1985)],
       [(''date'', 1), (''price'', 1970)]]"
    by code_simp
  from run_query_success [OF c s n e]
  have "run_query ready_driver ''  Select price From gold_price  '' [] =
       (Inr (Success [[(''date'', 3), (''price'', 1990)], [(''date'', 2), (''price'', 1985)],
                      [(''date'', 1), (''price'', 1970)]] 3 ''  Select price From gold_price  ''),
        [Opened, Executed table_probe_sql, Closed,
         Opened, Executed ''  Select price From gold_price  '', Closed])"
    unfolding dict by simp
  with c s n e show ?thesis by simp
qed

text \<open>
  Claim C8: when the database file does not exist, every operation that reaches the
  database (all but a \<open>get_price_range\<close> with \<open>days\<close> out of range) returns a failure, or the
  status \<open>missing\<close>, that carries the resolved absolute path; no exception escapes, and the
  database is not touched.
\<close>

theorem missing_database_reported:
  assumes "\<not> path_exists d"
  shows "run_query d sql t = (Inr (Failure db_missing_message (Some (abspath d))), t)
    \<and> get_table_info d t = (Inr (Failure db_missing_message (Some (abspath d))), t)
    \<and> sample_data d t = (Inr (Failure db_missing_message (Some (abspath d))), t)
    \<and> get_latest_price d t = (Inr (Failure db_missing_message (Some (abspath d))), t)
    \<and> (1 \<le> days \<and> days \<le> 365 \<longrightarrow>
         get_price_range d days t = (Inr (Failure db_missing_message (Some (abspath d))), t))
    \<and> (\<exists>message hint.
         database_status d t = (Inr (Status ''missing'' message (abspath d) hint None), t))"
  using assms
  by (simp add: run_query_def get_table_info_def sample_data_def get_latest_price_def
      get_price_range_def database_status_def execute_sql_query_def check_missing)

theorem missing_database_reported_witness:
  "\<not> path_exists missing_driver
   \<and> run_query missing_driver ''select * from gold_price'' [] =
        (Inr (Failure db_missing_message (Some SQLITE_DB_PATH)), [])
   \<and> get_table_info missing_driver [] =
        (Inr (Failure db_missing_message (Some SQLITE_DB_PATH)), [])
   \<and> sample_data missing_driver [] =
        (Inr (Failure db_missing_message (Some SQLITE_DB_PATH)), [])
   \<and> get_latest_price missing_driver [] =
        (Inr (Failure db_missing_message (Some SQLITE_DB_PATH)), [])
   \<and> get_price_range missing_driver 7 [] =
        (Inr (Failure db_missing_message (Some SQLITE_DB_PATH)), [])"
proof -
  have m: "\<not> path_exists missing_driver" by (simp add: missing_driver_def)
  have p: "abspath missing_driver = SQLITE_DB_PATH" by (simp add: missing_driver_def)
  from missing_database_reported [OF m, where sql = "''select * from gold_price''"
      and t = "[]" and days = 7] m
  show ?thesis by (simp add: p)
qed

text \<open>
  Claim C9: every connection an operation opens is closed before the operation returns, on
  every exit path. The executor and \<open>get_table_info\<close> do so in a \<open>finally\<close> block;
  \<open>check_database_exists\<close> and \<open>database_status\<close> call \<open>conn.close()\<close> only after the
  statement has returned. On a file that is not a database the existence check returns
  with its connection open, and so does \<open>run_query\<close>; on a database whose table cannot be
  read \<open>database_status\<close> returns the status \<open>error\<close> with two connections opened and one
  closed.
\<close>

theorem connection_left_open:
  "check_database_exists corrupt_driver [] = (Inr False, [Opened, Executed table_probe_sql])
   \<and> fst (run_query corrupt_driver ''select * from gold_price'' []) =
        Inr (Failure db_missing_message (Some SQLITE_DB_PATH))
   \<and> opened (snd (run_query corrupt_driver ''select * from gold_price'' [])) = 1
   \<and> closed (snd (run_query corrupt_driver ''select * from gold_price'' [])) = 0
   \<and> fst (database_status damaged_driver []) =
        Inr (Status ''error'' ''Database error: database disk image is malformed''
               SQLITE_DB_PATH None None)
   \<and> opened (snd (database_status damaged_driver [])) = 2
   \<and> closed (snd (database_status damaged_driver [])) = 1"
  by code_simp
end
